theory Spec2Isabelle
  imports Complex_Main "HOL-Library.Sublist"
begin

section \<open>Landmarks and the geometry helpers of the frontend\<close>

text \<open>
  A landmark is the object MediaPipe produces for one keypoint. JavaScript numbers are
  modelled as real numbers: arithmetic is exact, and there is no NaN, no infinity and
  no signed zero among the coordinates.
\<close>

record landmark =
  x :: real
  y :: real
  z :: real
  visibility :: real


text \<open>
  \<^verbatim>\<open>Math.atan2(v, u)\<close> over the reals: the angle of the vector \<open>(u, v)\<close> in
  \<open>(-\<pi>, \<pi>]\<close>, and \<open>0\<close> for the zero vector (the value JavaScript gives for
  \<^verbatim>\<open>Math.atan2(0, 0)\<close>, which is what the difference of two equal finite
  coordinates produces).
\<close>

definition atan2 :: "real \<Rightarrow> real \<Rightarrow> real" where
  "atan2 v u =
     (if 0 < u then arctan (v / u)
      else if u < 0 then (if 0 \<le> v then arctan (v / u) + pi else arctan (v / u) - pi)
      else if 0 < v then pi / 2
      else if v < 0 then - (pi / 2)
      else 0)"

definition calculateAngle :: "landmark \<Rightarrow> landmark \<Rightarrow> landmark \<Rightarrow> real" where
  "calculateAngle a b c =
     (let radians = atan2 (y c - y b) (x c - x b) - atan2 (y a - y b) (x a - x b);
          angle = \<bar>radians * 180.0 / pi\<bar>
      in if angle > 180.0 then 360 - angle else angle)"

definition calculateDistance :: "landmark \<Rightarrow> landmark \<Rightarrow> real" where
  "calculateDistance a b = sqrt ((x a - x b) ^ 2 + (y a - y b) ^ 2)"

section \<open>The payload handed over by the MediaPipe processor\<close>








text \<open>
  What the home page reads of the answer to \<^verbatim>\<open>/classify\<close>: whether its field
  \<^verbatim>\<open>success\<close> is truthy, and its field \<^verbatim>\<open>pose\<close> (absent from the next body when
  undefined).
\<close>

record classification =
  success :: bool
  pose :: "string option"



section \<open>Feedback messages and their presentation class\<close>

text \<open>
  A JavaScript string is a sequence of UTF-16 code units. The markers of the results
  panel are: check mark U+2713, trophy U+1F3C6 (D83C DFC6), warning sign U+26A0 followed by
  the variation selector U+FE0F, light bulb U+1F4A1 (D83D DCA1) and flexed biceps U+1F4AA
  (D83D DCAA).
\<close>

type_synonym jsstring = "nat list"

definition ascii :: "string \<Rightarrow> jsstring" where
  "ascii s = map of_char s"

text \<open>\<^verbatim>\<open>String.prototype.includes\<close>: the search string occurs as a contiguous part.\<close>

fun js_includes :: "jsstring \<Rightarrow> jsstring \<Rightarrow> bool" where
  "js_includes [] search = (search = [])"
| "js_includes (u # us) search = (prefix search (u # us) \<or> js_includes us search)"

definition check_mark :: jsstring where
  "check_mark = [0x2713]"

definition trophy :: jsstring where
  "trophy = [0xD83C, 0xDFC6]"

definition warning_sign :: jsstring where
  "warning_sign = [0x26A0, 0xFE0F]"

definition light_bulb :: jsstring where
  "light_bulb = [0xD83D, 0xDCA1]"

definition flexed_biceps :: jsstring where
  "flexed_biceps = [0xD83D, 0xDCAA]"

definition getFeedbackClass :: "jsstring \<Rightarrow> string" where
  "getFeedbackClass feedback =
     (if js_includes feedback (check_mark @ check_mark) \<or> js_includes feedback trophy
        then ''feedback-excellent''
      else if js_includes feedback check_mark then ''feedback-good''
      else if js_includes feedback warning_sign then ''feedback-warning''
      else if js_includes feedback light_bulb \<or> js_includes feedback flexed_biceps
        then ''feedback-tip''
      else ''feedback-neutral'')"

section \<open>Skill level labels\<close>

text \<open>
  The label table of \<^verbatim>\<open>getSkillLevelLabel\<close>; \<open>CHR 0xE9\<close> is the letter e with acute
  accent.
\<close>

definition labels :: "(string \<times> string) list" where
  "labels = [(''beginner'', ''D'' @ [CHR 0xE9] @ ''butant''),
             (''intermediate'', ''Interm'' @ [CHR 0xE9] @ ''diaire''),
             (''advanced'', ''Avanc'' @ [CHR 0xE9])]"

text \<open>
  The table is an object literal, so that \<^verbatim>\<open>labels[level]\<close> also finds the members it
  inherits from \<^verbatim>\<open>Object.prototype\<close>: functions, and for \<^verbatim>\<open>__proto__\<close> the prototype
  object itself. All of them are truthy.
\<close>

definition object_prototype_members :: "string list" where
  "object_prototype_members =
     [''constructor'', ''hasOwnProperty'', ''isPrototypeOf'', ''propertyIsEnumerable'',
      ''toLocaleString'', ''toString'', ''valueOf'', ''__proto__'',
      ''__defineGetter__'', ''__defineSetter__'', ''__lookupGetter__'', ''__lookupSetter__'']"

text \<open>
  The value \<^verbatim>\<open>getSkillLevelLabel\<close> returns: a string, or the member of
  \<^verbatim>\<open>Object.prototype\<close> of the given name.
\<close>

datatype label_value = Label string | Inherited string

text \<open>
  The lookup \<^verbatim>\<open>labels[level] || level\<close>: an entry of the table (none is empty), else an
  inherited member, else the level itself.
\<close>

definition getSkillLevelLabel :: "string \<Rightarrow> label_value" where
  "getSkillLevelLabel level =
     (case map_of labels level of
        Some l \<Rightarrow> if l \<noteq> [] then Label l else Label level
      | None \<Rightarrow>
          if level \<in> set object_prototype_members then Inherited level else Label level)"

section \<open>JavaScript values reaching the results panel\<close>

text \<open>
  The values of the fields the score expressions read: numbers, objects (as parsed from
  JSON, so that no property is a function), \<^verbatim>\<open>null\<close> or absent (\<^verbatim>\<open>undefined\<close>). A
  number is NaN or a finite real. Strings, booleans and arrays are not among these values.
\<close>

datatype jsnum = NaN | Finite real

datatype jsval = JUndefined | JNull | JNum jsnum | JObj "(string \<times> jsval) list"

datatype js_error = TypeError

fun truthy :: "jsval \<Rightarrow> bool" where
  "truthy JUndefined = False"
| "truthy JNull = False"
| "truthy (JNum NaN) = False"
| "truthy (JNum (Finite r)) = (r \<noteq> 0)"
| "truthy (JObj fs) = True"

text \<open>
  \<^verbatim>\<open>ToNumber\<close>, the coercion behind \<^verbatim>\<open>isNaN\<close>, \<^verbatim>\<open>Math.round\<close>, \<^verbatim>\<open>*\<close>, \<^verbatim>\<open>/\<close> and
  \<^verbatim>\<open>>=\<close>. An object is converted to a primitive first: through the inherited
  \<^verbatim>\<open>toString\<close> it becomes a string that is no number; when it has a property
  \<^verbatim>\<open>toString\<close> of its own, that property is not callable and the conversion throws.
\<close>

fun toNumber :: "jsval \<Rightarrow> js_error + jsnum" where
  "toNumber JUndefined = Inr NaN"
| "toNumber JNull = Inr (Finite 0)"
| "toNumber (JNum n) = Inr n"
| "toNumber (JObj fs) = (if ''toString'' \<in> fst ` set fs then Inl TypeError else Inr NaN)"

definition isNaN :: "jsval \<Rightarrow> js_error + bool" where
  "isNaN v = (case toNumber v of Inl e \<Rightarrow> Inl e | Inr n \<Rightarrow> Inr (n = NaN))"

text \<open>\<^verbatim>\<open>Math.round\<close> on a number: halves go up.\<close>

fun round_num :: "jsnum \<Rightarrow> jsnum" where
  "round_num NaN = NaN"
| "round_num (Finite r) = Finite (of_int \<lfloor>r + 1 / 2\<rfloor>)"

definition Math_round :: "jsval \<Rightarrow> js_error + jsnum" where
  "Math_round v = (case toNumber v of Inl e \<Rightarrow> Inl e | Inr n \<Rightarrow> Inr (round_num n))"

fun times :: "jsnum \<Rightarrow> real \<Rightarrow> jsnum" where
  "times NaN k = NaN"
| "times (Finite r) k = Finite (r * k)"

text \<open>Division by a non-zero constant.\<close>

fun over :: "jsnum \<Rightarrow> real \<Rightarrow> jsnum" where
  "over NaN k = NaN"
| "over (Finite r) k = Finite (r / k)"


text \<open>
  Property access \<^verbatim>\<open>v.k\<close> on a value that is neither null nor undefined, for the names
  the panel reads (\<^verbatim>\<open>indicators\<close>, \<^verbatim>\<open>global_score\<close>, \<^verbatim>\<open>priority_indicator\<close>,
  \<^verbatim>\<open>score\<close>), none of which is inherited. The keys of an object are distinct; a missing
  property reads as undefined.
\<close>

fun getProp :: "jsval \<Rightarrow> string \<Rightarrow> jsval" where
  "getProp (JObj fs) k = (case map_of fs k of Some v \<Rightarrow> v | None \<Rightarrow> JUndefined)"
| "getProp v k = JUndefined"




text \<open>What React is given to display: a string or a number.\<close>

datatype child = Text string | Number jsnum

section \<open>The radar chart\<close>


text \<open>
  One entry of the chart data. The field \<open>indicator\<close> holds the key; its display name
  (\<^verbatim>\<open>formatIndicatorName\<close> of the key, a string) is a relabelling that is not modelled.
\<close>

record radar_datum =
  indicator :: string
  score :: jsnum
  fullMark :: nat

text \<open>\<^verbatim>\<open>isNaN(value) ? 0 : Math.round(value * 10) / 10\<close>\<close>

definition radarScore :: "jsval \<Rightarrow> js_error + jsnum" where
  "radarScore v =
     (case isNaN v of
        Inl e \<Rightarrow> Inl e
      | Inr b \<Rightarrow>
          if b then Inr (Finite 0)
          else (case toNumber v of
                  Inl e \<Rightarrow> Inl e
                | Inr n \<Rightarrow> Inr (over (round_num (times n 10)) 10)))"







section \<open>The quality section of the results panel\<close>


text \<open>
  The score number,
  \<^verbatim>\<open>isNaN(global_score) || global_score === undefined || global_score === null ? '0' : Math.round(global_score)\<close>.
\<close>

definition scoreNumber :: "jsval \<Rightarrow> js_error + child" where
  "scoreNumber global_score =
     (case isNaN global_score of
        Inl e \<Rightarrow> Inl e
      | Inr b \<Rightarrow>
          if b \<or> global_score = JUndefined \<or> global_score = JNull then Inr (Text ''0'')
          else (case Math_round global_score of
                  Inl e \<Rightarrow> Inl e
                | Inr n \<Rightarrow> Inr (Number n)))"

text \<open>
  The score of the priority indicator,
  \<^verbatim>\<open>isNaN(priority_indicator.score) ? '0' : Math.round(priority_indicator.score)\<close>, for a
  truthy \<^verbatim>\<open>priority_indicator\<close>.
\<close>

definition priorityScore :: "jsval \<Rightarrow> js_error + child" where
  "priorityScore priority_indicator =
     (case isNaN (getProp priority_indicator ''score'') of
        Inl e \<Rightarrow> Inl e
      | Inr b \<Rightarrow>
          if b then Inr (Text ''0'')
          else (case Math_round (getProp priority_indicator ''score'') of
                  Inl e \<Rightarrow> Inl e
                | Inr n \<Rightarrow> Inr (Number n)))"

text \<open>
  The guard of \<^verbatim>\<open>renderQualityAnalysis\<close>: the unavailable notice, or the branch of the
  quality section. Whether the section then renders depends on its other fields (the name
  of the priority indicator, the feedback list, the recommendation), which this function
  does not examine; its score expressions are the functions above.
\<close>

datatype quality_view = QualityUnavailable | QualitySection

definition renderQualityAnalysis :: "jsval \<Rightarrow> quality_view" where
  "renderQualityAnalysis quality_analysis =
     (if \<not> truthy quality_analysis \<or> \<not> truthy (getProp quality_analysis ''indicators'')
      then QualityUnavailable
      else QualitySection)"

section \<open>The aggregator and the report builder of the backend\<close>

text \<open>
  The quality analyzer of the backend (\<^verbatim>\<open>yoga_quality_analyzer.py\<close>, with
  \<^verbatim>\<open>calculate_global_score\<close>, \<^verbatim>\<open>identify_priority_indicator\<close> and
  \<^verbatim>\<open>determine_skill_level\<close>) is known through the documentation only. The definitions
  of this section follow the specification, and each says so.
\<close>

text \<open>
  Modelled from the spec: the IndicatorSet, an ordered mapping from indicator names to
  scores, in declaration order.
\<close>

type_synonym indicator_set = "(string \<times> real) list"

text \<open>
  Modelled from the spec: the arithmetic mean used by \<^verbatim>\<open>calculate_global_score\<close>. The
  spec gives every posture three to five indicators; on the empty list the quotient is
  \<open>0\<close> here.
\<close>

definition mean :: "real list \<Rightarrow> real" where
  "mean xs = sum_list xs / real (length xs)"

text \<open>
  Modelled from the spec: rounding to the nearest integer as the backend's
  \<^verbatim>\<open>round\<close> does it, a tie going to the even neighbour.
\<close>

definition round_half_even :: "real \<Rightarrow> int" where
  "round_half_even r =
     (let f = \<lfloor>r\<rfloor> in
      if r - of_int f < 1 / 2 then f
      else if 1 / 2 < r - of_int f then f + 1
      else if even f then f else f + 1)"

text \<open>Modelled from the spec: rounding to one decimal place, \<^verbatim>\<open>round(v, 1)\<close>.\<close>

definition round1 :: "real \<Rightarrow> real" where
  "round1 r = of_int (round_half_even (r * 10)) / 10"

text \<open>
  Modelled from the spec: \<^verbatim>\<open>calculate_global_score\<close>, the arithmetic mean of all
  indicator scores, rounded to one decimal place.
\<close>

definition calculate_global_score :: "indicator_set \<Rightarrow> real" where
  "calculate_global_score ind = round1 (mean (map snd ind))"

text \<open>
  Modelled from the spec: the tunable cut-offs of the skill bands and of the
  improvement bands, which the spec leaves to configuration.
\<close>

record policy =
  intermediate_from :: real
  advanced_from :: real
  expert_from :: real
  important_below :: real
  modere_below :: real

text \<open>Modelled from the spec: the four skill levels.\<close>

datatype skill = Beginner | Intermediate | Advanced | Expert

text \<open>Modelled from the spec: the four fixed strings of \<^verbatim>\<open>skill_level\<close> on the wire.\<close>

fun skill_name :: "skill \<Rightarrow> string" where
  "skill_name Beginner = ''beginner''"
| "skill_name Intermediate = ''intermediate''"
| "skill_name Advanced = ''advanced''"
| "skill_name Expert = ''expert''"

text \<open>
  Modelled from the spec: \<^verbatim>\<open>determine_skill_level\<close>, a four-band label derived from
  the global score by ordered thresholds.
\<close>

definition determine_skill_level :: "policy \<Rightarrow> real \<Rightarrow> skill" where
  "determine_skill_level pol g =
     (if expert_from pol \<le> g then Expert
      else if advanced_from pol \<le> g then Advanced
      else if intermediate_from pol \<le> g then Intermediate
      else Beginner)"

text \<open>Modelled from the spec: the three improvement bands of the priority indicator.\<close>

datatype improvement = Leger | Modere | Important

text \<open>
  Modelled from the spec: the improvement band of a score, by the two cut-offs of the
  configuration.
\<close>

definition improvement_band :: "policy \<Rightarrow> real \<Rightarrow> improvement" where
  "improvement_band pol s =
     (if s < important_below pol then Important
      else if s < modere_below pol then Modere
      else Leger)"

text \<open>Modelled from the spec: the priority indicator of a report.\<close>

record priority =
  name :: string
  score :: real
  improvement_needed :: improvement

text \<open>
  Modelled from the spec: the scan behind \<^verbatim>\<open>identify_priority_indicator\<close>. It walks the
  indicators in declaration order and replaces the current candidate only by a strictly
  lower score, so that the first-declared of several lowest indicators is kept.
\<close>

fun lowest :: "string \<times> real \<Rightarrow> indicator_set \<Rightarrow> string \<times> real" where
  "lowest best [] = best"
| "lowest best (kv # rest) = lowest (if snd kv < snd best then kv else best) rest"

text \<open>
  Modelled from the spec: \<^verbatim>\<open>identify_priority_indicator\<close>; an empty IndicatorSet has
  no priority indicator.
\<close>

definition identify_priority_indicator :: "policy \<Rightarrow> indicator_set \<Rightarrow> priority option" where
  "identify_priority_indicator pol ind =
     (case ind of
        [] \<Rightarrow> None
      | kv # rest \<Rightarrow>
          Some \<lparr>name = fst (lowest kv rest), score = snd (lowest kv rest),
                improvement_needed = improvement_band pol (snd (lowest kv rest))\<rparr>)"

text \<open>Modelled from the spec: the QualityReport.\<close>

record quality_report =
  pose :: string
  indicators :: indicator_set
  feedback :: "jsstring list"
  global_score :: real
  skill_level :: skill
  priority_indicator :: "priority option"

text \<open>
  Modelled from the spec: the Aggregator, which adds the global score, the skill level
  and the priority indicator to what a posture analyzer returned.
\<close>

definition aggregate :: "policy \<Rightarrow> string \<Rightarrow> indicator_set \<Rightarrow> jsstring list \<Rightarrow> quality_report" where
  "aggregate pol poseName ind fb =
     \<lparr>pose = poseName, indicators = ind, feedback = fb,
      global_score = calculate_global_score ind,
      skill_level = determine_skill_level pol (calculate_global_score ind),
      priority_indicator = identify_priority_indicator pol ind\<rparr>"

text \<open>Modelled from the spec: the five supported postures.\<close>

datatype posture = Downdog | Plank | Tree | Warrior2 | Goddess

text \<open>Modelled from the spec: the fixed vocabulary of pose names.\<close>

definition parse_pose :: "string \<Rightarrow> posture option" where
  "parse_pose poseName =
     map_of [(''downdog'', Downdog), (''plank'', Plank), (''tree'', Tree),
             (''warrior2'', Warrior2), (''goddess'', Goddess)] poseName"

text \<open>
  Modelled from the spec: what the builder returns, the explicit unavailable report (no
  indicators, no global score) or a full one.
\<close>

datatype report = Unavailable | Full quality_report

text \<open>
  Modelled from the spec: the two hard failures of the builder, a frame of the wrong
  length and an unsupported pose name.
\<close>

datatype failure = InputShapeError nat | UnknownPostureError string

text \<open>
  Modelled from the spec: \<^verbatim>\<open>analyzeQuality\<close>, the Quality Report Builder. The five
  posture analyzers are a parameter. A confidence below 0.70 gives the unavailable report
  whatever the landmarks are; otherwise a frame that has not 33 landmarks and an unknown
  pose name are hard failures, and every other input is dispatched to its analyzer and
  aggregated.
\<close>

definition analyzeQuality ::
  "policy \<Rightarrow> (posture \<Rightarrow> landmark list \<Rightarrow> indicator_set \<times> jsstring list) \<Rightarrow>
   landmark list \<Rightarrow> string \<Rightarrow> real \<Rightarrow> failure + report" where
  "analyzeQuality pol analyzers frame poseName classificationConfidence =
     (if classificationConfidence < 0.70 then Inr Unavailable
      else if length frame \<noteq> 33 then Inl (InputShapeError (length frame))
      else case parse_pose poseName of
             None \<Rightarrow> Inl (UnknownPostureError poseName)
           | Some p \<Rightarrow>
               Inr (Full (aggregate pol poseName (fst (analyzers p frame))
                            (snd (analyzers p frame)))))"

section \<open>The documented example response\<close>

text \<open>
  The quality analysis of the example response in the implementation summary (and in the
  setup guide): a plank classified with confidence 0.94.
\<close>

definition documented_report :: quality_report where
  "documented_report =
     \<lparr>pose = ''plank'',
      indicators = [(''alignment'', 92.3), (''core_strength'', 100.0),
                    (''symmetry'', 87.5), (''shoulder_position'', 85.2)],
      feedback =
        [check_mark @ check_mark @ ascii '' Alignement parfait ! Corps bien droit.'',
         check_mark @ check_mark @ ascii '' Planche compl'' @ [0xE8]
           @ ascii ''te ! Excellente force du core.'',
         check_mark @ ascii '' R'' @ [0xE9] @ ascii ''partissez le poids '' @ [0xE9]
           @ ascii ''quitablement.''],
      global_score = 81.5,
      skill_level = Advanced,
      priority_indicator =
        Some \<lparr>name = ''shoulder_position'', score = 85.2, improvement_needed = Modere\<rparr>\<rparr>"

section \<open>Example inputs\<close>

text \<open>
  A configuration of the cut-offs under which the documented response has its skill
  level and its improvement band.
\<close>

definition example_policy :: policy where
  "example_policy =
     \<lparr>intermediate_from = 50, advanced_from = 70, expert_from = 90,
      important_below = 60, modere_below = 90\<rparr>"

definition example_frame :: "landmark list" where
  "example_frame = replicate 33 \<lparr>x = 1 / 2, y = 1 / 2, z = 0, visibility = 1\<rparr>"

text \<open>Analyzers that return the indicators and the feedback of the documented response.\<close>

definition example_analyzers ::
  "posture \<Rightarrow> landmark list \<Rightarrow> indicator_set \<times> jsstring list" where
  "example_analyzers p frame = (indicators documented_report, feedback documented_report)"

section \<open>Lemmas on the geometry helpers\<close>

lemma atan2_cases:
  obtains "0 < u" "atan2 v u = arctan (v / u)"
  | "u < 0" "0 \<le> v" "atan2 v u = arctan (v / u) + pi"
  | "u < 0" "v < 0" "atan2 v u = arctan (v / u) - pi"
  | "u = 0" "0 < v" "atan2 v u = pi / 2"
  | "u = 0" "v < 0" "atan2 v u = - (pi / 2)"
  | "u = 0" "v = 0" "atan2 v u = 0"
proof -
  consider "0 < u" | "u < 0" "0 \<le> v" | "u < 0" "v < 0" | "u = 0" "0 < v" | "u = 0" "v < 0"
    | "u = 0" "v = 0"
    by linarith
  then show thesis
    by cases (simp_all add: atan2_def that)
qed

lemma atan2_lower: "- pi < atan2 v u"
proof -
  have lb: "- (pi / 2) < arctan (v / u)" by (rule arctan_lbound)
  have p: "0 < pi" by (rule pi_gt_zero)
  show ?thesis
  proof (cases v u rule: atan2_cases)
    case 3
    then have "0 < arctan (v / u)" by (simp add: divide_neg_neg)
    with 3 p show ?thesis by linarith
  qed (use lb p in linarith)+
qed

lemma atan2_upper: "atan2 v u \<le> pi"
proof -
  have ub: "arctan (v / u) < pi / 2" by (rule arctan_ubound)
  have p: "0 < pi" by (rule pi_gt_zero)
  show ?thesis
  proof (cases v u rule: atan2_cases)
    case 2
    then have "arctan (v / u) \<le> 0" by (simp add: divide_nonneg_neg)
    with 2 p show ?thesis by linarith
  qed (use ub p in linarith)+
qed

lemma atan2_abs_le: "\<bar>atan2 v u\<bar> \<le> pi"
  using atan2_lower [of v u] atan2_upper [of v u] by linarith

lemma atan2_origin: "atan2 0 0 = 0"
  by (simp add: atan2_def)

lemma hyp_pos: "0 < u \<Longrightarrow> sqrt (1 + (v / u)\<^sup>2) = sqrt (u\<^sup>2 + v\<^sup>2) / u"
proof -
  assume u: "0 < u"
  have "1 + (v / u)\<^sup>2 = (u\<^sup>2 + v\<^sup>2) / u\<^sup>2"
    using u by (simp add: field_simps power2_eq_square)
  then have "sqrt (1 + (v / u)\<^sup>2) = sqrt (u\<^sup>2 + v\<^sup>2) / sqrt (u\<^sup>2)"
    by (simp add: real_sqrt_divide)
  then show ?thesis using u by simp
qed

lemma hyp_neg: "u < 0 \<Longrightarrow> sqrt (1 + (v / u)\<^sup>2) = sqrt (u\<^sup>2 + v\<^sup>2) / (- u)"
  using hyp_pos [of "- u" "v"] by simp

lemma norm_pos: "u \<noteq> 0 \<Longrightarrow> 0 < sqrt (u\<^sup>2 + v\<^sup>2)"
  by (simp add: sum_power2_gt_zero_iff)

text \<open>The direction \<^const>\<open>atan2\<close> returns is the polar angle of the vector.\<close>

lemma atan2_polar:
  "sqrt (u\<^sup>2 + v\<^sup>2) * cos (atan2 v u) = u \<and> sqrt (u\<^sup>2 + v\<^sup>2) * sin (atan2 v u) = v"
proof (cases v u rule: atan2_cases)
  case 1
  then show ?thesis
    using norm_pos [of u v] by (simp add: cos_arctan sin_arctan hyp_pos)
next
  case 2
  then show ?thesis
    using norm_pos [of u v] by (simp add: cos_arctan sin_arctan hyp_neg)
next
  case 3
  then show ?thesis
    using norm_pos [of u v] by (simp add: cos_arctan sin_arctan hyp_neg)
next
  case 4
  show ?thesis
    unfolding 4(3) using 4(1,2) by simp
next
  case 5
  show ?thesis
    unfolding 5(3) using 5(1,2) by simp
next
  case 6
  then show ?thesis by simp
qed

lemma degrees_abs: "\<bar>r * 180 / pi\<bar> = \<bar>r\<bar> * 180 / pi"
  by (simp add: abs_mult)

lemma degrees_le: "\<bar>r\<bar> * 180 / pi \<le> 180 \<longleftrightarrow> \<bar>r\<bar> \<le> pi"
  using pi_gt_zero by (simp add: field_simps)

lemma degrees_diff_bound: "\<bar>atan2 v u - atan2 v' u'\<bar> * 180 / pi < 360"
proof -
  have "\<bar>atan2 v u - atan2 v' u'\<bar> < 2 * pi"
    using atan2_lower [of v u] atan2_upper [of v u] atan2_lower [of v' u'] atan2_upper [of v' u']
    by linarith
  then show ?thesis
    using pi_gt_zero by (simp add: field_simps)
qed

text \<open>
  Claim C6. For all points \<open>a\<close>, \<open>b\<close>, \<open>c\<close> (real coordinates),
  \<^verbatim>\<open>calculateAngle(a, b, c)\<close> lies in \<open>[0, 180]\<close> and is the absolute difference of the
  two \<^verbatim>\<open>atan2\<close> directions converted to degrees, reflected as \<open>360 - d\<close> when that
  difference \<open>d\<close> exceeds 180.
\<close>

theorem calculateAngle_range:
  "0 \<le> calculateAngle a b c \<and> calculateAngle a b c \<le> 180 \<and>
   calculateAngle a b c =
     (let d = \<bar>(atan2 (y c - y b) (x c - x b) - atan2 (y a - y b) (x a - x b)) * 180 / pi\<bar>
      in if d > 180 then 360 - d else d)"
proof -
  define d where
    "d = \<bar>(atan2 (y c - y b) (x c - x b) - atan2 (y a - y b) (x a - x b)) * 180 / pi\<bar>"
  have d0: "0 \<le> d" by (simp add: d_def)
  have d360: "d < 360"
    unfolding d_def degrees_abs by (rule degrees_diff_bound)
  have eq: "calculateAngle a b c = (if d > 180 then 360 - d else d)"
    by (simp add: calculateAngle_def d_def Let_def)
  have "0 \<le> calculateAngle a b c" "calculateAngle a b c \<le> 180"
    using d0 d360 by (simp_all add: eq)
  moreover have "calculateAngle a b c = (let d' = d in if d' > 180 then 360 - d' else d')"
    by (simp add: eq)
  ultimately show ?thesis
    unfolding d_def by blast
qed

text \<open>
  Claim C7, as stated, fails: with \<open>a\<close> on the vertex \<open>b\<close> and \<open>c\<close> straight above
  it, the function returns 90 degrees, not the sentinel 0.
\<close>

theorem calculateAngle_degenerate_not_zero:
  "calculateAngle \<lparr>x = 0, y = 0, z = 0, visibility = 1\<rparr>
                  \<lparr>x = 0, y = 0, z = 0, visibility = 1\<rparr>
                  \<lparr>x = 0, y = 1, z = 0, visibility = 1\<rparr> = 90
   \<and> calculateAngle \<lparr>x = 0, y = 0, z = 0, visibility = 1\<rparr>
                    \<lparr>x = 0, y = 0, z = 0, visibility = 1\<rparr>
                    \<lparr>x = 0, y = 1, z = 0, visibility = 1\<rparr> \<noteq> 0"
  by (simp add: calculateAngle_def atan2_def Let_def)

text \<open>
  Claim C7, amended. On a degenerate input (\<open>a\<close> or \<open>c\<close> on the vertex \<open>b\<close>)
  \<^verbatim>\<open>calculateAngle\<close> is defined (it raises nothing) and returns a value in
  \<open>[0, 180]\<close>: the unsigned direction, in degrees from the positive x axis, of the
  vector that is left; it returns 0 when both \<open>a\<close> and \<open>c\<close> lie on \<open>b\<close>.
\<close>

theorem calculateAngle_degenerate:
  assumes "(x a = x b \<and> y a = y b) \<or> (x c = x b \<and> y c = y b)"
  shows "calculateAngle a b c =
           (if x a = x b \<and> y a = y b then \<bar>atan2 (y c - y b) (x c - x b)\<bar>
            else \<bar>atan2 (y a - y b) (x a - x b)\<bar>) * 180 / pi
         \<and> 0 \<le> calculateAngle a b c \<and> calculateAngle a b c \<le> 180
         \<and> ((x a = x b \<and> y a = y b) \<and> (x c = x b \<and> y c = y b)
              \<longrightarrow> calculateAngle a b c = 0)"
proof -
  have k: "\<not> (\<bar>atan2 v u\<bar> * 180 / pi > 180)" for v u
    using degrees_le [of "atan2 v u"] atan2_abs_le [of v u] by simp
  show ?thesis
    using assms k [of "y c - y b" "x c - x b"] k [of "y a - y b" "x a - x b"]
    by (auto simp: calculateAngle_def Let_def atan2_origin degrees_abs)
qed

theorem calculateAngle_degenerate_witness:
  "calculateAngle \<lparr>x = 1, y = 2, z = 0, visibility = 1\<rparr>
                  \<lparr>x = 1, y = 2, z = 5, visibility = 1\<rparr>
                  \<lparr>x = 1, y = 2, z = 7, visibility = 0\<rparr> = 0
   \<and> calculateAngle \<lparr>x = 1, y = 2, z = 0, visibility = 1\<rparr>
                    \<lparr>x = 1, y = 2, z = 5, visibility = 1\<rparr>
                    \<lparr>x = 1, y = 3, z = 7, visibility = 0\<rparr> = 90"
  using calculateAngle_degenerate
          [of "\<lparr>x = 1, y = 2, z = 0, visibility = 1\<rparr>" "\<lparr>x = 1, y = 2, z = 5, visibility = 1\<rparr>"
              "\<lparr>x = 1, y = 2, z = 7, visibility = 0\<rparr>"]
        calculateAngle_degenerate
          [of "\<lparr>x = 1, y = 2, z = 0, visibility = 1\<rparr>" "\<lparr>x = 1, y = 2, z = 5, visibility = 1\<rparr>"
              "\<lparr>x = 1, y = 3, z = 7, visibility = 0\<rparr>"]
  by (simp add: atan2_def)

text \<open>
  Claim C8. \<^verbatim>\<open>calculateDistance(a, b)\<close> is the Euclidean distance of the x,y plane, and
  changing the z coordinate of either point leaves it unchanged.
\<close>

theorem calculateDistance_planar:
  "calculateDistance a b = sqrt ((x a - x b)\<^sup>2 + (y a - y b)\<^sup>2)
   \<and> calculateDistance (a\<lparr>z := za\<rparr>) (b\<lparr>z := zb\<rparr>) = calculateDistance a b
   \<and> calculateDistance \<lparr>x = x a, y = y a, z = za, visibility = va\<rparr>
                        \<lparr>x = x b, y = y b, z = zb, visibility = vb\<rparr> = calculateDistance a b"
  by (simp add: calculateDistance_def)

section \<open>The payload and the clock\<close>




section \<open>Feedback classes\<close>

lemmas marker_defs = check_mark_def trophy_def warning_sign_def light_bulb_def flexed_biceps_def

text \<open>
  Claim C9, as stated, fails: a tip-marked and an encouragement-marked message are given
  the same class, \<^verbatim>\<open>feedback-tip\<close>.
\<close>

theorem tip_and_encouragement_share_a_class:
  "getFeedbackClass (light_bulb @ ascii '' Conseil'') = ''feedback-tip'' \<and>
   getFeedbackClass (flexed_biceps @ ascii '' Courage'') = ''feedback-tip'' \<and>
   getFeedbackClass (light_bulb @ ascii '' Conseil'')
     = getFeedbackClass (flexed_biceps @ ascii '' Courage'')"
  by (simp add: getFeedbackClass_def marker_defs ascii_def)

text \<open>
  Claim C9, amended. For every feedback string the classifier infers from the markers one
  of four severity classes, tested in this order: excellent (a double check mark or a
  trophy), good (a check mark), warning (the warning sign), tip (the light bulb or the
  flexed biceps); a string with no marker is neutral. Tip-marked and encouragement-marked
  messages share the class tip.
\<close>

theorem getFeedbackClass_classes:
  "getFeedbackClass s \<in> {''feedback-excellent'', ''feedback-good'', ''feedback-warning'',
                          ''feedback-tip'', ''feedback-neutral''}
   \<and> (getFeedbackClass s = ''feedback-excellent'' \<longleftrightarrow>
        js_includes s (check_mark @ check_mark) \<or> js_includes s trophy)
   \<and> (getFeedbackClass s = ''feedback-good'' \<longleftrightarrow>
        \<not> js_includes s (check_mark @ check_mark) \<and> \<not> js_includes s trophy
        \<and> js_includes s check_mark)
   \<and> (getFeedbackClass s = ''feedback-warning'' \<longleftrightarrow>
        \<not> js_includes s (check_mark @ check_mark) \<and> \<not> js_includes s trophy
        \<and> \<not> js_includes s check_mark \<and> js_includes s warning_sign)
   \<and> (getFeedbackClass s = ''feedback-tip'' \<longleftrightarrow>
        \<not> js_includes s (check_mark @ check_mark) \<and> \<not> js_includes s trophy
        \<and> \<not> js_includes s check_mark \<and> \<not> js_includes s warning_sign
        \<and> (js_includes s light_bulb \<or> js_includes s flexed_biceps))"
  by (simp add: getFeedbackClass_def)

theorem getFeedbackClass_classes_witness:
  "getFeedbackClass (flexed_biceps @ ascii '' Courage'') = ''feedback-tip'' \<and>
   js_includes (flexed_biceps @ ascii '' Courage'') flexed_biceps \<and>
   \<not> js_includes (flexed_biceps @ ascii '' Courage'') light_bulb"
  using getFeedbackClass_classes [of "flexed_biceps @ ascii '' Courage''"]
  by (simp add: marker_defs ascii_def)

text \<open>The messages of the documented response are classified excellent, excellent, good.\<close>

lemma documented_feedback_classes:
  "map getFeedbackClass (feedback documented_report)
     = [''feedback-excellent'', ''feedback-excellent'', ''feedback-good'']"
  by (simp add: documented_report_def getFeedbackClass_def marker_defs ascii_def)

section \<open>Skill level labels\<close>

text \<open>
  Claim C4, as stated, fails: the label table has no entry for \<^verbatim>\<open>expert\<close>, which is
  displayed as the bare identifier.
\<close>

theorem expert_has_no_label:
  "map_of labels ''expert'' = None \<and> getSkillLevelLabel ''expert'' = Label ''expert''"
  by (simp add: getSkillLevelLabel_def labels_def object_prototype_members_def)

text \<open>
  Claim C4, amended. The skill level of every report is one of beginner, intermediate,
  advanced and expert. The presentation-side mapping has a dedicated label for exactly
  three of them (beginner, intermediate, advanced); the fourth, expert, has no entry in
  the table and is displayed unchanged.
\<close>

theorem skill_level_labels:
  "skill_name (skill_level r) \<in> {''beginner'', ''intermediate'', ''advanced'', ''expert''}
   \<and> skill_name (determine_skill_level pol g)
        \<in> {''beginner'', ''intermediate'', ''advanced'', ''expert''}
   \<and> getSkillLevelLabel ''beginner'' = Label (''D'' @ [CHR 0xE9] @ ''butant'')
   \<and> getSkillLevelLabel ''intermediate'' = Label (''Interm'' @ [CHR 0xE9] @ ''diaire'')
   \<and> getSkillLevelLabel ''advanced'' = Label (''Avanc'' @ [CHR 0xE9])
   \<and> getSkillLevelLabel ''expert'' = Label ''expert''
   \<and> (map_of labels level \<noteq> None \<longleftrightarrow> level \<in> {''beginner'', ''intermediate'', ''advanced''})
   \<and> (\<forall>k. getSkillLevelLabel (skill_name k) = Label (skill_name k) \<longleftrightarrow> k = Expert)"
proof -
  have names: "skill_name k \<in> {''beginner'', ''intermediate'', ''advanced'', ''expert''}" for k
    by (cases k) simp_all
  have table: "map_of labels level \<noteq> None \<longleftrightarrow> level \<in> {''beginner'', ''intermediate'', ''advanced''}"
    by (simp add: labels_def)
  have known: "getSkillLevelLabel ''beginner'' = Label (''D'' @ [CHR 0xE9] @ ''butant'')"
    "getSkillLevelLabel ''intermediate'' = Label (''Interm'' @ [CHR 0xE9] @ ''diaire'')"
    "getSkillLevelLabel ''advanced'' = Label (''Avanc'' @ [CHR 0xE9])"
    "getSkillLevelLabel ''expert'' = Label ''expert''"
    by (simp_all add: getSkillLevelLabel_def labels_def object_prototype_members_def)
  have only: "getSkillLevelLabel (skill_name k) = Label (skill_name k) \<longleftrightarrow> k = Expert" for k
    by (cases k) (simp_all add: known)
  from names table known only show ?thesis
    by blast
qed

theorem skill_level_labels_witness:
  "getSkillLevelLabel (skill_name (determine_skill_level example_policy 95)) = Label ''expert'' \<and>
   getSkillLevelLabel (skill_name (determine_skill_level example_policy 75))
     = Label (''Avanc'' @ [CHR 0xE9]) \<and>
   getSkillLevelLabel (skill_name (skill_level documented_report))
     = Label (''Avanc'' @ [CHR 0xE9])"
  using skill_level_labels [of documented_report example_policy 95 "''expert''"]
  by (simp add: determine_skill_level_def example_policy_def documented_report_def)

text \<open>
  Outside the enumeration, a level that names a member of \<^verbatim>\<open>Object.prototype\<close> is not
  displayed as itself: the lookup returns the inherited member.
\<close>

lemma inherited_member_is_returned:
  "getSkillLevelLabel ''constructor'' = Inherited ''constructor''"
  by (simp add: getSkillLevelLabel_def labels_def object_prototype_members_def)

section \<open>Scores that are not numbers\<close>

lemma toNumber_non_numeric:
  "toNumber (JNum NaN) = Inr NaN" "toNumber JUndefined = Inr NaN" "toNumber JNull = Inr (Finite 0)"
  by simp_all


text \<open>The score expressions can throw: an object with a property \<^verbatim>\<open>toString\<close> does it.\<close>

lemma score_expressions_can_throw:
  "scoreNumber (JObj [(''toString'', JNull)]) = Inl TypeError"
  "radarScore (JObj [(''toString'', JNull)]) = Inl TypeError"
  "priorityScore (JObj [(''score'', JObj [(''toString'', JNull)])]) = Inl TypeError"
  by (simp_all add: scoreNumber_def radarScore_def priorityScore_def isNaN_def)



section \<open>The gating law\<close>

text \<open>
  Claim C2. Below a confidence of 0.70 the builder returns the unavailable report whatever
  the landmarks (and the pose name) are; from 0.70 on, a call that ends in no hard failure
  returns a full report, and it does so whenever the frame has 33 landmarks and the pose
  name is supported. The renderer shows the unavailable notice when there is no report or
  when the indicators field of the report is absent (missing or null), and it shows the
  quality section when the field holds an indicator mapping.
\<close>

theorem gating_law:
  "(c < 0.70 \<longrightarrow> analyzeQuality pol A frame pn c = Inr Unavailable)
   \<and> (0.70 \<le> c \<and> (\<forall>e. analyzeQuality pol A frame pn c \<noteq> Inl e)
        \<longrightarrow> (\<exists>r. analyzeQuality pol A frame pn c = Inr (Full r)))
   \<and> (0.70 \<le> c \<and> length frame = 33 \<and> parse_pose pn = Some p
        \<longrightarrow> analyzeQuality pol A frame pn c
              = Inr (Full (aggregate pol pn (fst (A p frame)) (snd (A p frame)))))
   \<and> renderQualityAnalysis JUndefined = QualityUnavailable
   \<and> renderQualityAnalysis JNull = QualityUnavailable
   \<and> (getProp (JObj fs) ''indicators'' \<in> {JUndefined, JNull}
        \<longrightarrow> renderQualityAnalysis (JObj fs) = QualityUnavailable)
   \<and> (getProp (JObj fs) ''indicators'' = JObj ifs
        \<longrightarrow> renderQualityAnalysis (JObj fs) \<noteq> QualityUnavailable)"
proof -
  have low: "c < 0.70 \<longrightarrow> analyzeQuality pol A frame pn c = Inr Unavailable"
    by (simp add: analyzeQuality_def)
  have high: "0.70 \<le> c \<and> (\<forall>e. analyzeQuality pol A frame pn c \<noteq> Inl e)
        \<longrightarrow> (\<exists>r. analyzeQuality pol A frame pn c = Inr (Full r))"
    by (auto simp: analyzeQuality_def split: option.splits if_splits)
  have full: "0.70 \<le> c \<and> length frame = 33 \<and> parse_pose pn = Some p
        \<longrightarrow> analyzeQuality pol A frame pn c
              = Inr (Full (aggregate pol pn (fst (A p frame)) (snd (A p frame))))"
    by (simp add: analyzeQuality_def)
  have none: "renderQualityAnalysis JUndefined = QualityUnavailable"
    "renderQualityAnalysis JNull = QualityUnavailable"
    by (simp_all add: renderQualityAnalysis_def)
  have absent: "getProp (JObj fs) ''indicators'' \<in> {JUndefined, JNull}
        \<longrightarrow> renderQualityAnalysis (JObj fs) = QualityUnavailable"
    by (auto simp: renderQualityAnalysis_def)
  have present: "getProp (JObj fs) ''indicators'' = JObj ifs
        \<longrightarrow> renderQualityAnalysis (JObj fs) \<noteq> QualityUnavailable"
    by (simp add: renderQualityAnalysis_def Let_def)
  from low high full none absent present show ?thesis
    by (simp only: simp_thms)
qed

theorem gating_law_witness:
  "analyzeQuality example_policy example_analyzers example_frame ''plank'' 0.40 = Inr Unavailable
   \<and> analyzeQuality example_policy example_analyzers example_frame ''plank'' 0.94
       = Inr (Full (aggregate example_policy ''plank'' (indicators documented_report)
                      (feedback documented_report)))
   \<and> renderQualityAnalysis (JObj [(''pose'', JObj [])]) = QualityUnavailable
   \<and> renderQualityAnalysis (JObj [(''indicators'', JObj [(''alignment'', JNum (Finite 92.3))])])
       \<noteq> QualityUnavailable"
  using gating_law [of "0.40" example_policy example_analyzers example_frame "''plank''" Plank
                       "[(''pose'', JObj [])]" "[]"]
        gating_law [of "0.94" example_policy example_analyzers example_frame "''plank''" Plank
                       "[(''indicators'', JObj [(''alignment'', JNum (Finite 92.3))])]"
                       "[(''alignment'', JNum (Finite 92.3))]"]
  by (simp add: example_frame_def parse_pose_def example_analyzers_def)

section \<open>The priority indicator\<close>

lemma lowest_first_minimum:
  "\<exists>pre post. best # rest = pre @ lowest best rest # post
     \<and> (\<forall>kv \<in> set pre. snd (lowest best rest) < snd kv)
     \<and> (\<forall>kv \<in> set post. snd (lowest best rest) \<le> snd kv)"
proof (induction rest arbitrary: best)
  case Nil
  have "[best] = [] @ lowest best [] # []" by simp
  then show ?case by fastforce
next
  case (Cons kv rest)
  define best' where "best' = (if snd kv < snd best then kv else best)"
  define m where "m = lowest best' rest"
  have step: "lowest best (kv # rest) = m"
    by (simp add: best'_def m_def)
  from Cons.IH [of best'] obtain pre post where
    split: "best' # rest = pre @ m # post"
    and before: "\<forall>e \<in> set pre. snd m < snd e"
    and after: "\<forall>e \<in> set post. snd m \<le> snd e"
    unfolding m_def by blast
  have le: "snd best' \<le> snd best" "snd best' \<le> snd kv"
    by (simp_all add: best'_def)
  have goal: "\<exists>pre post. best # kv # rest = pre @ m # post
     \<and> (\<forall>e \<in> set pre. snd m < snd e) \<and> (\<forall>e \<in> set post. snd m \<le> snd e)"
  proof (cases pre)
    case Nil
    with split have eq: "best' # rest = m # post" by (simp only: append_Nil)
    from eq have m: "m = best'" by (metis list.inject)
    from eq have p: "post = rest" by (metis list.inject)
    show ?thesis
    proof (cases "snd kv < snd best")
      case True
      then have mk: "m = kv" by (simp add: m best'_def)
      have "best # kv # rest = [best] @ m # rest"
        by (simp add: mk)
      moreover have "\<forall>e \<in> set [best]. snd m < snd e"
        using True by (simp add: mk)
      moreover have "\<forall>e \<in> set rest. snd m \<le> snd e"
        using after p by simp
      ultimately show ?thesis by blast
    next
      case False
      then have mb: "m = best" by (simp add: m best'_def)
      have "best # kv # rest = [] @ m # (kv # rest)"
        by (simp add: mb)
      moreover have "\<forall>e \<in> set []. snd m < snd e"
        by simp
      moreover have "\<forall>e \<in> set (kv # rest). snd m \<le> snd e"
        using False after p by (simp add: mb)
      ultimately show ?thesis by blast
    qed
  next
    case (Cons b pre')
    with split have eq: "best' # rest = b # (pre' @ m # post)" by simp
    from eq have b: "b = best'" by (metis list.inject)
    from eq have r: "rest = pre' @ m # post" by (metis list.inject)
    have lt: "snd m < snd best'"
      using before Cons b by simp
    have "best # kv # rest = (best # kv # pre') @ m # post"
      using r by simp
    moreover have "\<forall>e \<in> set (best # kv # pre'). snd m < snd e"
      using before Cons lt le by auto
    ultimately show ?thesis
      using after by blast
  qed
  show ?case
    unfolding step by (rule goal)
qed

text \<open>
  Claim C3. For a non-empty IndicatorSet the priority indicator is an entry of the set whose
  score is the minimum of all scores; every indicator declared before it has a strictly
  greater score, so that among several lowest indicators the first-declared is selected.
\<close>

theorem priority_indicator_is_first_minimum:
  assumes "ind \<noteq> []"
  shows "\<exists>p pre post. identify_priority_indicator pol ind = Some p
           \<and> ind = pre @ (name p, score p) # post
           \<and> (\<forall>kv \<in> set pre. score p < snd kv)
           \<and> (\<forall>kv \<in> set post. score p \<le> snd kv)
           \<and> score p = Min (snd ` set ind)"
proof -
  from assms obtain kv rest where ind: "ind = kv # rest"
    by (cases ind) auto
  define m where "m = lowest kv rest"
  from lowest_first_minimum [of kv rest] obtain pre post where
    split: "ind = pre @ m # post"
    and before: "\<forall>e \<in> set pre. snd m < snd e"
    and after: "\<forall>e \<in> set post. snd m \<le> snd e"
    unfolding ind m_def by blast
  define p where
    "p = \<lparr>name = fst m, score = snd m, improvement_needed = improvement_band pol (snd m)\<rparr>"
  have res: "identify_priority_indicator pol ind = Some p"
    by (simp add: identify_priority_indicator_def ind p_def m_def)
  have entry: "(name p, score p) = m"
    by (simp add: p_def)
  have "snd m \<in> snd ` set ind"
    using split by force
  moreover have "\<forall>v \<in> snd ` set ind. snd m \<le> v"
    using split before after by (auto simp: less_imp_le)
  ultimately have "Min (snd ` set ind) = snd m"
    by (intro Min_eqI) auto
  then have mn: "score p = Min (snd ` set ind)"
    by (simp add: p_def)
  have sm: "snd m = score p"
    by (simp add: p_def)
  have "ind = pre @ (name p, score p) # post"
    using split entry by simp
  moreover have "\<forall>e \<in> set pre. score p < snd e" "\<forall>e \<in> set post. score p \<le> snd e"
    using before after sm by simp_all
  ultimately show ?thesis
    using res mn by blast
qed

theorem priority_indicator_is_first_minimum_witness:
  "identify_priority_indicator example_policy (indicators documented_report)
     = priority_indicator documented_report
   \<and> identify_priority_indicator example_policy
        [(''alignment'', 70), (''symmetry'', 40), (''core_strength'', 40)]
     = Some \<lparr>name = ''symmetry'', score = 40, improvement_needed = Important\<rparr>"
  using priority_indicator_is_first_minimum [of "indicators documented_report" example_policy]
        priority_indicator_is_first_minimum
          [of "[(''alignment'', 70), (''symmetry'', 40), (''core_strength'', 40)]" example_policy]
  by (simp add: identify_priority_indicator_def documented_report_def example_policy_def
        improvement_band_def)

section \<open>The global score\<close>

lemma round_half_even_close: "\<bar>of_int (round_half_even r) - r\<bar> \<le> 1 / 2"
  unfolding round_half_even_def Let_def
  by (auto simp: abs_if) linarith+

text \<open>Rounding to one decimal place moves a value by at most 0.05.\<close>

lemma round1_close: "\<bar>round1 r - r\<bar> \<le> 1 / 20"
proof -
  have "\<bar>of_int (round_half_even (r * 10)) - r * 10\<bar> \<le> 1 / 2"
    by (rule round_half_even_close)
  then show ?thesis
    by (simp add: round1_def field_simps abs_if split: if_splits)
qed

lemma round1_tenths: "\<exists>k::int. round1 r = of_int k / 10"
  by (auto simp: round1_def)

text \<open>
  Claim C1. Every report the builder produces, for whatever posture, carries as its global
  score the arithmetic mean of its indicator scores rounded to one decimal place: a number
  of tenths within 0.05 of the mean. For the indicators 92.3, 100.0, 87.5 and 85.2 of the
  worked example the mean is 91.25 and the global score is its rounding, 91.2.
\<close>

theorem global_score_is_rounded_mean:
  assumes "analyzeQuality pol A frame pn c = Inr (Full r)"
  shows "global_score r = round1 (mean (map snd (indicators r)))
    \<and> (\<exists>k::int. global_score r = of_int k / 10)
    \<and> \<bar>global_score r - mean (map snd (indicators r))\<bar> \<le> 1 / 20
    \<and> (map snd (indicators r) = [92.3, 100.0, 87.5, 85.2]
         \<longrightarrow> mean (map snd (indicators r)) = 91.25 \<and> global_score r = round1 91.25
             \<and> global_score r = 91.2)"
proof -
  from assms obtain ind fb where r: "r = aggregate pol pn ind fb"
    by (auto simp: analyzeQuality_def split: if_splits option.splits)
  have gs: "global_score r = round1 (mean (map snd (indicators r)))"
    by (simp add: r aggregate_def calculate_global_score_def)
  have tenths: "\<exists>k::int. global_score r = of_int k / 10"
    unfolding gs by (rule round1_tenths)
  have close: "\<bar>global_score r - mean (map snd (indicators r))\<bar> \<le> 1 / 20"
    unfolding gs by (rule round1_close)
  have m: "mean [92.3, 100.0, 87.5, 85.2] = 91.25"
    by (simp add: mean_def)
  have rd: "round1 91.25 = 91.2"
    by (simp add: round1_def round_half_even_def Let_def)
  have example: "map snd (indicators r) = [92.3, 100.0, 87.5, 85.2]
         \<longrightarrow> mean (map snd (indicators r)) = 91.25 \<and> global_score r = round1 91.25
             \<and> global_score r = 91.2"
  proof
    assume eq: "map snd (indicators r) = [92.3, 100.0, 87.5, 85.2]"
    have "mean (map snd (indicators r)) = 91.25"
      unfolding eq by (rule m)
    moreover have "global_score r = round1 91.25"
      unfolding gs eq m by (rule refl)
    moreover have "global_score r = 91.2"
      unfolding gs eq m by (rule rd)
    ultimately show "mean (map snd (indicators r)) = 91.25 \<and> global_score r = round1 91.25
             \<and> global_score r = 91.2"
      by (intro conjI)
  qed
  from gs tenths close example show ?thesis
    by blast
qed

theorem global_score_is_rounded_mean_witness:
  "analyzeQuality example_policy example_analyzers example_frame ''plank'' 0.94
     = Inr (Full (aggregate example_policy ''plank'' (indicators documented_report)
                    (feedback documented_report)))
   \<and> global_score (aggregate example_policy ''plank'' (indicators documented_report)
                     (feedback documented_report)) = 91.2"
  using global_score_is_rounded_mean
          [of example_policy example_analyzers example_frame "''plank''" "0.94"
              "aggregate example_policy ''plank'' (indicators documented_report)
                 (feedback documented_report)"]
  by (simp add: analyzeQuality_def example_frame_def parse_pose_def example_analyzers_def
        aggregate_def documented_report_def)

text \<open>
  The example response of the documentation carries another global score, 81.5, for these
  indicators; the documents do not agree with one another on it.
\<close>

lemma documented_global_score_differs:
  "global_score documented_report \<noteq> calculate_global_score (indicators documented_report)"
  by (simp add: documented_report_def calculate_global_score_def mean_def round1_def
        round_half_even_def Let_def)

end
